theory Spec2Isabelle
  imports Complex_Main
begin

section \<open>Data model of \<open>game_main.py\<close>\<close>

text \<open>
  The embedding follows class \<open>DodgingSimulatorGame\<close>. Every attribute the methods
  under study read or write is a field of the record \<open>game\<close>; a method is a function
  from the state to the updated state. A method that can raise returns the outcome
  together with the state it leaves behind, because a Python exception does not undo
  the assignments made before it.
\<close>

text \<open>
  The exceptions that occur: \<open>ValueError\<close> with its message, \<open>pygame.error\<close>,
  \<open>FileNotFoundError\<close>, and any other exception (named by its class, or by its
  cause where the class is not known), which the \<open>except\<close> clause of
  \<open>_load_assets\<close> does not catch.
\<close>

datatype error = ValueError string | PygameError | FileNotFoundError | OtherError string

type_synonym color = "nat \<times> nat \<times> nat"

text \<open>
  The constants imported from \<open>Dodging_Simulator.config\<close>. The module is not part of
  the sources at hand, so the values are a parameter of every function that reads them.
\<close>

record Config =
  GAME_WIDTH :: int
  GAME_HEIGHT :: int
  BACKGROUND_COLOR :: color
  BACKGROUND_IMAGE :: string

text \<open>
  A surface is either an image read from a file and scaled, or a blank surface of a
  given size filled with one colour.
\<close>

datatype surface =
    Image string int int
  | Solid int int color

record Player =
  health :: int
  max_health :: int

datatype EnhancedProjectile = EnhancedProjectile nat

datatype WarningIndicator = WarningIndicator nat

text \<open>
  Modelled from the spec: the classes of \<open>Dodging_Simulator.patterns.observer\<close>
  (\<open>GameEventManager\<close>, \<open>StatsObserver\<close>, \<open>ScoreObserver\<close>) are missing. The event
  manager is the sequence of attached observers in attach order; an event is one of the
  four kinds of the data model, \<open>RunEnded\<close> carrying the elapsed time and the mode;
  the statistics observer holds the two per-run counters.
\<close>

datatype observer = ScoreObserver | StatsObserver

type_synonym GameEventManager = "observer list"

datatype game_event =
    ProjectileDodged
  | PlayerHit
  | HeartRestored
  | RunEnded real string

record StatsObserver_state =
  hearts_restored :: int
  projectiles_dodged :: int

text \<open>
  Modelled from the spec: the strategy classes of \<open>Dodging_Simulator.patterns.strategy\<close>
  are missing. A strategy is the policy the data model describes: a mode name, a map
  from elapsed time to the spawn interval (milliseconds, as \<open>pygame.time.set_timer\<close>
  takes them) and the player a new run starts with. \<open>GameModeContext\<close> holds the one
  active strategy, and every call on the context is routed to it.
\<close>

record DifficultyStrategy =
  mode_name :: string
  spawn_interval :: "real \<Rightarrow> int"
  new_player :: Player

record GameModeContext =
  strategy :: DifficultyStrategy

text \<open>
  Modelled from the spec: \<open>GameModeContext.set_strategy\<close> is missing. Switching the
  strategy is valid only before a run starts or after a full reset; a switch in the
  middle of a run must be rejected or deferred. The policy modelled is rejection: the
  switch violates the invariant of the context, and an invariant violation fails loudly,
  so the call raises and the context keeps its strategy. Outside a run the call replaces
  the active strategy. The call in \<open>set_game_mode\<close> passes the strategy only; that a run
  is in progress is state of the state machine, which the model hands over as the
  argument \<open>mid_run\<close>. The spec names no exception class.
\<close>

definition set_strategy ::
    "DifficultyStrategy \<Rightarrow> bool \<Rightarrow> GameModeContext \<Rightarrow> error + GameModeContext" where
  "set_strategy s mid_run c =
     (if mid_run then Inl (OtherError ''mid-run strategy switch'')
      else Inr (c\<lparr>strategy := s\<rparr>))"

definition get_mode_name :: "GameModeContext \<Rightarrow> string" where
  "get_mode_name c = mode_name (strategy c)"

definition get_spawn_interval :: "GameModeContext \<Rightarrow> real \<Rightarrow> int" where
  "get_spawn_interval c t = spawn_interval (strategy c) t"

definition create_player :: "GameModeContext \<Rightarrow> Player" where
  "create_player c = new_player (strategy c)"

text \<open>
  The two strategy classes are a parameter of \<open>set_game_mode\<close>: each constructor takes
  the event manager and yields a strategy.
\<close>

record StrategyClasses =
  NormalModeStrategy :: "GameEventManager \<Rightarrow> DifficultyStrategy"
  NightmareModeStrategy :: "GameEventManager \<Rightarrow> DifficultyStrategy"

text \<open>
  Modelled from the spec: the singleton \<open>GameState\<close> of
  \<open>Dodging_Simulator.patterns.singleton\<close> is missing. It records the current mode
  name and the flag \<open>game_running\<close> that the main loop reads.
\<close>

record GameState =
  mode :: string
  game_running :: bool

definition set_mode :: "string \<Rightarrow> GameState \<Rightarrow> GameState" where
  "set_mode m s = s\<lparr>mode := m\<rparr>"

text \<open>
  Modelled from the spec: \<open>ScoreManager\<close> of \<open>Dodging_Simulator.managers.score_manager\<close>
  is missing. The leaderboard maps a mode name to the time values stored for it.
\<close>

type_synonym ScoreManager = "string \<rightharpoonup> real list"

text \<open>The attributes of the game object.\<close>

datatype state_name = Menu | Playing | GameOver | HallOfFame

record game =
  background_image :: surface
  stdout :: "string list"
  game_state :: GameState
  event_manager :: GameEventManager
  stats_observer :: StatsObserver_state
  game_mode_context :: GameModeContext
  score_manager :: ScoreManager
  player :: "Player option"
  projectiles :: "EnhancedProjectile list"
  warning_indicators :: "WarningIndicator list"
  current_spawn_interval :: "int option"
  spawn_event_timer :: "int option"
  running :: bool
  current_state :: state_name

section \<open>Mode selection and the start of a run\<close>

text \<open>
  Modelled from the spec: the state machine of \<open>Dodging_Simulator.patterns.state\<close> is
  missing. A run is in progress while the machine is in the state \<open>Playing\<close>, which is
  entered through \<open>initialize_game\<close> and left when the player's health is used up.
\<close>

definition run_in_progress :: "game \<Rightarrow> bool" where
  "run_in_progress g = (current_state g = Playing)"

text \<open>
  The last two statements of \<open>set_game_mode\<close>: the strategy is handed to the context,
  then the mode name is recorded in the game state. An exception of \<open>set_strategy\<close>
  leaves the method before \<open>set_mode\<close> is reached.
\<close>

definition install_strategy ::
    "DifficultyStrategy \<Rightarrow> string \<Rightarrow> game \<Rightarrow> (error + unit) \<times> game" where
  "install_strategy s m g =
     (case set_strategy s (run_in_progress g) (game_mode_context g) of
        Inl e \<Rightarrow> (Inl e, g)
      | Inr c \<Rightarrow>
          (Inr (), g\<lparr>game_mode_context := c, game_state := set_mode m (game_state g)\<rparr>))"

text \<open>
  \<open>set_game_mode\<close>: the mode string selects the strategy class; any other string
  raises \<open>ValueError\<close> before the context or the game state is touched.
\<close>

definition set_game_mode ::
    "StrategyClasses \<Rightarrow> string \<Rightarrow> game \<Rightarrow> (error + unit) \<times> game" where
  "set_game_mode cls m g =
     (if m = ''normal'' then
        install_strategy (NormalModeStrategy cls (event_manager g)) m g
      else if m = ''nightmare'' then
        install_strategy (NightmareModeStrategy cls (event_manager g)) m g
      else (Inl (ValueError (''Unknown game mode: '' @ m)), g))"

text \<open>Modelled from the spec: \<open>StatsObserver.reset\<close> zeroes both counters.\<close>

definition reset :: "StatsObserver_state \<Rightarrow> StatsObserver_state" where
  "reset s = s\<lparr>hearts_restored := 0, projectiles_dodged := 0\<rparr>"

text \<open>
  \<open>initialize_game\<close>: reset the statistics, take a new player from the context, empty
  both lists, read the spawn interval at elapsed time \<open>0.0\<close>, store it and arm the
  pygame timer of the spawn event with it.
\<close>

definition initialize_game :: "game \<Rightarrow> game" where
  "initialize_game g =
     (let spawn = get_spawn_interval (game_mode_context g) 0
      in g\<lparr>stats_observer := reset (stats_observer g),
            player := Some (create_player (game_mode_context g)),
            projectiles := [],
            warning_indicators := [],
            current_spawn_interval := Some spawn,
            spawn_event_timer := Some spawn\<rparr>)"

text \<open>
  \<open>spawn_projectile\<close>: the projectile the context creates (a random choice of the
  strategy, given here as an argument) is appended to the list.
\<close>

definition spawn_projectile :: "EnhancedProjectile \<Rightarrow> game \<Rightarrow> game" where
  "spawn_projectile p g = g\<lparr>projectiles := projectiles g @ [p]\<rparr>"


section \<open>Assets\<close>

text \<open>
  \<open>_load_assets\<close>. The file system is the parameter \<open>image_load\<close>: for a path,
  \<open>pygame.image.load(path).convert()\<close> either raises or yields an image of some size.
  On success the image is scaled to the window size. The \<open>except\<close> clause catches
  \<open>pygame.error\<close> and \<open>FileNotFoundError\<close> only: it prints the warning and installs a
  surface of the window size filled with the background colour. Any other exception
  leaves the method.
\<close>

definition load_assets ::
    "Config \<Rightarrow> (string \<Rightarrow> error + int \<times> int) \<Rightarrow> game \<Rightarrow> (error + unit) \<times> game" where
  "load_assets cfg image_load g =
     (case image_load (BACKGROUND_IMAGE cfg) of
        Inr dims \<Rightarrow>
          (Inr (),
           g\<lparr>background_image :=
                Image (BACKGROUND_IMAGE cfg) (GAME_WIDTH cfg) (GAME_HEIGHT cfg)\<rparr>)
      | Inl e \<Rightarrow>
          (case e of
             ValueError msg \<Rightarrow> (Inl e, g)
           | OtherError cls \<Rightarrow> (Inl e, g)
           | _ \<Rightarrow>
               (Inr (),
                g\<lparr>stdout := stdout g @
                     [''Warning: Could not load background image from '' @ BACKGROUND_IMAGE cfg],
                   background_image :=
                     Solid (GAME_WIDTH cfg) (GAME_HEIGHT cfg) (BACKGROUND_COLOR cfg)\<rparr>)))"

section \<open>Events, statistics and scores\<close>

text \<open>
  Modelled from the spec: the observers and the score manager are missing from the
  sources. \<open>top_scores n mode\<close> yields the \<open>n\<close> largest stored time values of the mode in
  descending order (none for a mode without entry). On \<open>RunEnded\<close> the score observer
  inserts the time into the leaderboard of the mode and keeps the top five. The
  statistics observer counts \<open>ProjectileDodged\<close> and \<open>HeartRestored\<close>. \<open>publish\<close>
  hands the event to every attached observer in attach order.
\<close>

definition sort_desc :: "real list \<Rightarrow> real list" where
  "sort_desc xs = rev (sort xs)"

definition stored_scores :: "ScoreManager \<Rightarrow> string \<Rightarrow> real list" where
  "stored_scores sm m = (case sm m of None \<Rightarrow> [] | Some xs \<Rightarrow> xs)"

definition top_scores :: "nat \<Rightarrow> string \<Rightarrow> ScoreManager \<Rightarrow> real list" where
  "top_scores n m sm = take n (sort_desc (stored_scores sm m))"

definition add_score :: "real \<Rightarrow> string \<Rightarrow> ScoreManager \<Rightarrow> ScoreManager" where
  "add_score t m sm = sm(m \<mapsto> take 5 (sort_desc (t # stored_scores sm m)))"

fun notify :: "game_event \<Rightarrow> observer \<Rightarrow> game \<Rightarrow> game" where
  "notify (RunEnded t m) ScoreObserver g =
     g\<lparr>score_manager := add_score t m (score_manager g)\<rparr>"
| "notify ProjectileDodged StatsObserver g =
     g\<lparr>stats_observer := (stats_observer g)
          \<lparr>projectiles_dodged := projectiles_dodged (stats_observer g) + 1\<rparr>\<rparr>"
| "notify HeartRestored StatsObserver g =
     g\<lparr>stats_observer := (stats_observer g)
          \<lparr>hearts_restored := hearts_restored (stats_observer g) + 1\<rparr>\<rparr>"
| "notify e ob g = g"

definition publish :: "game_event \<Rightarrow> game \<Rightarrow> game" where
  "publish e g = fold (notify e) (event_manager g) g"

fun is_RunEnded :: "game_event \<Rightarrow> bool" where
  "is_RunEnded (RunEnded t m) = True"
| "is_RunEnded e = False"

text \<open>
  Modelled from the spec: the state machine of \<open>Dodging_Simulator.patterns.state\<close> is
  missing. Entering \<open>Playing\<close> runs \<open>initialize_game\<close>; entering \<open>GameOver\<close> publishes
  \<open>RunEnded\<close> once, with the final elapsed time and the mode of the active strategy.
\<close>

definition transition_to_playing :: "game \<Rightarrow> game" where
  "transition_to_playing g = initialize_game (g\<lparr>current_state := Playing\<rparr>)"

definition transition_to_game_over :: "real \<Rightarrow> game \<Rightarrow> game" where
  "transition_to_game_over t g =
     publish (RunEnded t (get_mode_name (game_mode_context g))) (g\<lparr>current_state := GameOver\<rparr>)"

section \<open>Rendering\<close>

text \<open>
  Rendering is the sequence of draw requests handed to the surface. Positions that
  depend on font metrics are left out of the request; the others are computed as in the
  source, \<open>//\<close> being \<open>div\<close>.
\<close>

datatype draw =
    Fill color
  | Blit surface
  | Player_draw Player
  | Projectile_draw EnhancedProjectile
  | Warning_draw WarningIndicator
  | HUD_draw_hearts int int string
  | HUD_draw_time real
  | HUD_draw_nightmare_stats int int
  | Overlay
  | Title string int int
  | Score_text "real option" int int
  | Instructions string int int
  | Top_scores_title string int
  | Top_score_line nat real int int

text \<open>The two lines of \<open>render_game\<close> that compute the dodge count of the next heart.\<close>

definition next_heart_at :: "int \<Rightarrow> int" where
  "next_heart_at restored =
     (let hearts_needed = (if restored = 0 then 75 else 150)
      in hearts_needed * (restored + 1))"

text \<open>\<open>enumerate(top, start=idx)\<close>.\<close>

fun enumerate_from :: "nat \<Rightarrow> 'a list \<Rightarrow> (nat \<times> 'a) list" where
  "enumerate_from idx [] = []"
| "enumerate_from idx (x # xs) = (idx, x) # enumerate_from (Suc idx) xs"

definition render_game_over :: "Config \<Rightarrow> game \<Rightarrow> real option \<Rightarrow> draw list" where
  "render_game_over cfg g final_score =
     (let w = GAME_WIDTH cfg; h = GAME_HEIGHT cfg;
          m = get_mode_name (game_mode_context g);
          top = top_scores 5 m (score_manager g);
          mode_text = (if m = ''normal'' then ''Normal Mode'' else ''Nightmare Mode'')
      in [Overlay,
          Title ''Game Over'' (w div 2) (h div 2 - 120),
          Score_text final_score (w div 2) (h div 2 - 60),
          Instructions ''Press R to restart  |  Esc to menu'' (w div 2) (h div 2),
          Top_scores_title (''Top Scores ('' @ mode_text @ '')'') (h div 2 + 36)]
         @ map (\<lambda>(idx, v). Top_score_line idx v (w div 2 - 80) (h div 2 + 36 + int idx * 26))
               (enumerate_from 1 top))"

definition render_game :: "Config \<Rightarrow> game \<Rightarrow> bool \<Rightarrow> real \<Rightarrow> real option \<Rightarrow> draw list" where
  "render_game cfg g game_over elapsed_seconds final_score =
     [Fill (BACKGROUND_COLOR cfg), Blit (background_image g)] @
     (case (if game_over then None else player g) of
        Some p \<Rightarrow>
          (let m = get_mode_name (game_mode_context g)
           in [Player_draw p]
              @ map Projectile_draw (projectiles g)
              @ map Warning_draw (warning_indicators g)
              @ [HUD_draw_hearts (health p) (max_health p) m, HUD_draw_time elapsed_seconds]
              @ (if m = ''nightmare''
                 then [HUD_draw_nightmare_stats
                         (projectiles_dodged (stats_observer g))
                         (next_heart_at (hearts_restored (stats_observer g)))]
                 else []))
      | None \<Rightarrow> render_game_over cfg g final_score)"

section \<open>The main loop\<close>

text \<open>
  \<open>run\<close>. The methods \<open>handle_event\<close>, \<open>update\<close> and \<open>render\<close> are inherited from the
  missing \<open>GameContext\<close>; they are a parameter, each a transformer of the game object.
  The outside world is the sequence of ticks: for each one the milliseconds returned by
  \<open>clock.tick(60)\<close> and the events returned by \<open>pygame.event.get()\<close>. The loop returns
  the final state and the ticks it did not consume; \<open>None\<close> says that the recorded
  input ends while the loop condition still holds.
\<close>

datatype pygame_event = QUIT | Event nat

record Handlers =
  handle_event :: "pygame_event \<Rightarrow> game \<Rightarrow> game"
  update :: "real \<Rightarrow> game \<Rightarrow> game"
  render :: "game \<Rightarrow> game"

type_synonym tick_input = "int \<times> pygame_event list"

fun dispatch_events :: "Handlers \<Rightarrow> pygame_event list \<Rightarrow> game \<Rightarrow> game" where
  "dispatch_events H [] g = g"
| "dispatch_events H (e # es) g =
     dispatch_events H es (if e = QUIT then g\<lparr>running := False\<rparr> else handle_event H e g)"

definition tick :: "Handlers \<Rightarrow> tick_input \<Rightarrow> game \<Rightarrow> game" where
  "tick H inp g =
     (let dt_seconds = real_of_int (fst inp) / 1000
      in render H (update H dt_seconds (dispatch_events H (snd inp) g)))"

definition loop_condition :: "game \<Rightarrow> bool" where
  "loop_condition g = (running g \<and> game_running (game_state g))"

fun run :: "Handlers \<Rightarrow> tick_input list \<Rightarrow> game \<Rightarrow> (game \<times> tick_input list) option" where
  "run H [] g = (if loop_condition g then None else Some (g, []))"
| "run H (inp # rest) g =
     (if loop_condition g then run H rest (tick H inp g) else Some (g, inp # rest))"

text \<open>
  Handlers that never set the attribute \<open>running\<close> again once it is cleared: the
  attribute is written in \<open>__init__\<close> and in the loop only.
\<close>

definition keeps_stopped :: "Handlers \<Rightarrow> bool" where
  "keeps_stopped H =
     ((\<forall>e g. \<not> running g \<longrightarrow> \<not> running (handle_event H e g))
    \<and> (\<forall>dt g. \<not> running g \<longrightarrow> \<not> running (update H dt g))
    \<and> (\<forall>g. \<not> running g \<longrightarrow> \<not> running (render H g)))"

section \<open>Sample instances\<close>

text \<open>
  Concrete values for evaluating the model. The window size, the file name and the two
  strategies stand for the missing configuration and strategy modules: Normal has a
  constant interval, Nightmare one that falls with elapsed time down to a floor.
\<close>

definition sample_config :: Config where
  "sample_config =
     \<lparr>GAME_WIDTH = 800, GAME_HEIGHT = 600, BACKGROUND_COLOR = (12, 12, 16),
      BACKGROUND_IMAGE = ''assets/background.png''\<rparr>"

definition sample_normal :: DifficultyStrategy where
  "sample_normal =
     \<lparr>mode_name = ''normal'', spawn_interval = (\<lambda>t. 1200),
      new_player = \<lparr>health = 3, max_health = 3\<rparr>\<rparr>"

definition sample_nightmare :: DifficultyStrategy where
  "sample_nightmare =
     \<lparr>mode_name = ''nightmare'', spawn_interval = (\<lambda>t. max 400 (900 - 5 * \<lfloor>t\<rfloor>)),
      new_player = \<lparr>health = 1, max_health = 3\<rparr>\<rparr>"

definition sample_classes :: StrategyClasses where
  "sample_classes =
     \<lparr>NormalModeStrategy = (\<lambda>em. sample_normal),
      NightmareModeStrategy = (\<lambda>em. sample_nightmare)\<rparr>"

text \<open>
  The game object as \<open>__init__\<close> leaves it: both observers attached, the Normal
  strategy active, no player, empty lists, the menu state.
\<close>

definition sample_game :: game where
  "sample_game =
     \<lparr>background_image = Image ''assets/background.png'' 800 600,
      stdout = [],
      game_state = \<lparr>mode = ''normal'', game_running = True\<rparr>,
      event_manager = [ScoreObserver, StatsObserver],
      stats_observer = \<lparr>hearts_restored = 0, projectiles_dodged = 0\<rparr>,
      game_mode_context = \<lparr>strategy = sample_normal\<rparr>,
      score_manager = Map.empty,
      player = None,
      projectiles = [],
      warning_indicators = [],
      current_spawn_interval = None,
      spawn_event_timer = None,
      running = True,
      current_state = Menu\<rparr>"

text \<open>
  Handlers for evaluating the loop: the event \<open>Event 27\<close> (Escape) clears
  \<open>game_running\<close>, every other event is ignored; \<open>update\<close> and \<open>render\<close> leave the
  game object as it is.
\<close>

definition sample_handlers :: Handlers where
  "sample_handlers =
     \<lparr>handle_event =
        (\<lambda>e g. if e = Event 27 then g\<lparr>game_state := (game_state g)\<lparr>game_running := False\<rparr>\<rparr>
                else g),
      update = (\<lambda>dt g. g),
      render = (\<lambda>g. g)\<rparr>"

text \<open>
  States for evaluating the properties: a Nightmare run after two restored hearts; a
  Normal run in which two projectiles were dodged and one heart restored; a Normal run
  that has just started; a leaderboard with seven stored times.
\<close>

definition nightmare_run :: game where
  "nightmare_run =
     (initialize_game (snd (set_game_mode sample_classes ''nightmare'' sample_game)))
       \<lparr>stats_observer := \<lparr>hearts_restored = 2, projectiles_dodged = 310\<rparr>\<rparr>"

definition played_run :: game where
  "played_run =
     publish HeartRestored (publish ProjectileDodged (publish ProjectileDodged
       (transition_to_playing sample_game)))"


definition sample_board :: ScoreManager where
  "sample_board = [''normal'' \<mapsto> [12.5, 80, 3, 41.25, 41.25, 7, 60.5]]"

section \<open>Properties\<close>

lemmas sample_defs = sample_game_def sample_classes_def sample_normal_def sample_nightmare_def
  sample_config_def

lemmas method_defs = set_game_mode_def install_strategy_def run_in_progress_def
  initialize_game_def set_strategy_def set_mode_def
  get_mode_name_def create_player_def get_spawn_interval_def reset_def publish_def
  transition_to_game_over_def transition_to_playing_def

subsection \<open>Mode selection\<close>

text \<open>
  C10. \<open>set_game_mode\<close> is atomic on error: for a mode string other than
  \<open>normal\<close> and \<open>nightmare\<close> the call raises \<open>ValueError\<close> and the whole game object,
  in particular the active strategy of the context and the mode name of the game
  state, is what it was before the call.
\<close>

theorem set_game_mode_atomic_on_error:
  assumes "m \<noteq> ''normal''" and "m \<noteq> ''nightmare''"
  shows "fst (set_game_mode cls m g) = Inl (ValueError (''Unknown game mode: '' @ m))
       \<and> snd (set_game_mode cls m g) = g
       \<and> strategy (game_mode_context (snd (set_game_mode cls m g))) = strategy (game_mode_context g)
       \<and> mode (game_state (snd (set_game_mode cls m g))) = mode (game_state g)"
  using assms by (simp add: set_game_mode_def)

theorem set_game_mode_atomic_on_error_witness:
  "''hard'' \<noteq> ''normal'' \<and> ''hard'' \<noteq> ''nightmare''
   \<and> fst (set_game_mode sample_classes ''hard'' sample_game)
       = Inl (ValueError ''Unknown game mode: hard'')
   \<and> snd (set_game_mode sample_classes ''hard'' sample_game) = sample_game"
  using set_game_mode_atomic_on_error [of "''hard''" sample_classes sample_game] by simp

subsection \<open>The start of a run\<close>

text \<open>
  C9. After \<open>initialize_game\<close> the projectile list and the warning list are empty,
  both counters of the statistics observer are zero, the player is the one the active
  strategy creates, and \<open>current_spawn_interval\<close> is the active strategy's spawn
  interval at elapsed time \<open>0.0\<close> (the value the spawn timer is armed with).
\<close>

theorem initialize_game_postcondition:
  "projectiles (initialize_game g) = []
 \<and> warning_indicators (initialize_game g) = []
 \<and> stats_observer (initialize_game g) = reset (stats_observer g)
 \<and> hearts_restored (stats_observer (initialize_game g)) = 0
 \<and> projectiles_dodged (stats_observer (initialize_game g)) = 0
 \<and> player (initialize_game g) = Some (new_player (strategy (game_mode_context g)))
 \<and> player (initialize_game g) = Some (create_player (game_mode_context (initialize_game g)))
 \<and> current_spawn_interval (initialize_game g)
      = Some (get_spawn_interval (game_mode_context (initialize_game g)) 0)
 \<and> spawn_event_timer (initialize_game g) = current_spawn_interval (initialize_game g)"
  by (simp add: initialize_game_def reset_def create_player_def get_spawn_interval_def Let_def)

subsection \<open>Statistics\<close>

lemma notify_stats_RunEnded: "stats_observer (notify (RunEnded t m) ob g) = stats_observer g"
  by (cases ob) simp_all

lemma fold_notify_stats_RunEnded:
  "stats_observer (fold (notify (RunEnded t m)) obs g) = stats_observer g"
  by (induction obs arbitrary: g) (simp_all add: notify_stats_RunEnded)

text \<open>
  C6. \<open>initialize_game\<close> sets both counters of the statistics observer to zero; with
  the two observers attached as in \<open>__init__\<close>, one \<open>ProjectileDodged\<close> event after
  the reset brings \<open>projectiles_dodged\<close> to exactly 1 and leaves \<open>hearts_restored\<close> at
  0; the transition to \<open>GameOver\<close> leaves the counters as they are, so that the game-over
  screen reads the statistics of the run that has ended; entering \<open>Playing\<close> resets them.
\<close>

theorem stats_reset_only_at_initialize_game:
  "hearts_restored (stats_observer (initialize_game g)) = 0
 \<and> projectiles_dodged (stats_observer (initialize_game g)) = 0
 \<and> (event_manager g = [ScoreObserver, StatsObserver] \<longrightarrow>
      projectiles_dodged (stats_observer (publish ProjectileDodged (initialize_game g))) = 1
    \<and> hearts_restored (stats_observer (publish ProjectileDodged (initialize_game g))) = 0)
 \<and> stats_observer (transition_to_game_over t g) = stats_observer g
 \<and> stats_observer (transition_to_playing g) = reset (stats_observer g)"
  by (simp add: initialize_game_def reset_def publish_def transition_to_game_over_def
        transition_to_playing_def fold_notify_stats_RunEnded Let_def)

theorem stats_reset_only_at_initialize_game_witness:
  "event_manager (transition_to_game_over 41.5 played_run) = [ScoreObserver, StatsObserver]
 \<and> stats_observer (transition_to_game_over 41.5 played_run)
      = \<lparr>hearts_restored = 1, projectiles_dodged = 2\<rparr>
 \<and> stats_observer
      (publish ProjectileDodged (initialize_game (transition_to_game_over 41.5 played_run)))
      = \<lparr>hearts_restored = 0, projectiles_dodged = 1\<rparr>"
  using stats_reset_only_at_initialize_game
    [of "transition_to_game_over 41.5 played_run" "41.5"]
  by (simp add: played_run_def sample_defs method_defs Let_def)

subsection \<open>The heads-up display\<close>

text \<open>
  C7. The next-heart target shown in nightmare mode uses the constants 75 and 150:
  with no heart restored it is 75 dodges, with \<open>k > 0\<close> hearts restored it is
  \<open>150 * (k + 1)\<close> dodges; while a run is drawn in nightmare mode, the last draw
  request is the nightmare statistics with the dodge count and this target.
\<close>

theorem next_heart_target:
  "next_heart_at 0 = 75
 \<and> (0 < k \<longrightarrow> next_heart_at k = 150 * (k + 1))
 \<and> (player g = Some p \<and> get_mode_name (game_mode_context g) = ''nightmare'' \<longrightarrow>
      last (render_game cfg g False t fs)
        = HUD_draw_nightmare_stats (projectiles_dodged (stats_observer g))
            (next_heart_at (hearts_restored (stats_observer g))))"
  by (simp add: next_heart_at_def render_game_def Let_def)

theorem next_heart_target_witness:
  "(0::int) < 2 \<and> next_heart_at 2 = 450
 \<and> player nightmare_run = Some \<lparr>health = 1, max_health = 3\<rparr>
 \<and> get_mode_name (game_mode_context nightmare_run) = ''nightmare''
 \<and> last (render_game sample_config nightmare_run False 12 None)
      = HUD_draw_nightmare_stats 310 450"
  using next_heart_target
    [of 2 nightmare_run "\<lparr>health = 1, max_health = 3\<rparr>" sample_config 12 None]
  by (simp add: nightmare_run_def sample_defs method_defs Let_def)

subsection \<open>Assets\<close>

text \<open>
  C8. If loading the background raises \<open>FileNotFoundError\<close> (missing file) or
  \<open>pygame.error\<close> (load error), \<open>_load_assets\<close> returns normally: it prints the warning
  and the background becomes a surface of the window size filled with the background
  colour; everything else of the game object is untouched.
\<close>

theorem load_assets_fallback:
  assumes "image_load (BACKGROUND_IMAGE cfg) = Inl e"
    and "e = FileNotFoundError \<or> e = PygameError"
  shows "load_assets cfg image_load g =
           (Inr (),
            g\<lparr>stdout := stdout g @
                 [''Warning: Could not load background image from '' @ BACKGROUND_IMAGE cfg],
               background_image :=
                 Solid (GAME_WIDTH cfg) (GAME_HEIGHT cfg) (BACKGROUND_COLOR cfg)\<rparr>)"
  using assms by (auto simp add: load_assets_def)

theorem load_assets_fallback_witness:
  "(\<lambda>p. Inl FileNotFoundError :: error + int \<times> int) (BACKGROUND_IMAGE sample_config)
     = Inl FileNotFoundError
 \<and> fst (load_assets sample_config (\<lambda>p. Inl FileNotFoundError) sample_game) = Inr ()
 \<and> background_image (snd (load_assets sample_config (\<lambda>p. Inl FileNotFoundError) sample_game))
      = Solid 800 600 (12, 12, 16)
 \<and> stdout (snd (load_assets sample_config (\<lambda>p. Inl FileNotFoundError) sample_game))
      = [''Warning: Could not load background image from assets/background.png'']"
  using load_assets_fallback
    [of "\<lambda>p. Inl FileNotFoundError" sample_config FileNotFoundError sample_game]
  by (simp add: sample_defs)

subsection \<open>The leaderboard\<close>

lemma sort_desc_descending: "sorted_wrt (\<ge>) (sort_desc xs)"
  by (simp add: sort_desc_def sorted_wrt_rev)

lemma top_scores_descending: "sorted_wrt (\<ge>) (top_scores n m sm)"
  unfolding top_scores_def by (rule sorted_wrt_take) (rule sort_desc_descending)

lemma notify_keeps_scores:
  "\<not> is_RunEnded e \<Longrightarrow> score_manager (notify e ob g) = score_manager g
     \<and> game_mode_context (notify e ob g) = game_mode_context g
     \<and> event_manager (notify e ob g) = event_manager g"
  by (cases e; cases ob) simp_all

lemma fold_notify_keeps_scores:
  "\<not> is_RunEnded e \<Longrightarrow> score_manager (fold (notify e) obs g) = score_manager g
     \<and> game_mode_context (fold (notify e) obs g) = game_mode_context g
     \<and> event_manager (fold (notify e) obs g) = event_manager g"
  by (induction obs arbitrary: g) (simp_all add: notify_keeps_scores)

lemma publish_keeps_scores:
  "\<not> is_RunEnded e \<Longrightarrow> score_manager (publish e g) = score_manager g
     \<and> game_mode_context (publish e g) = game_mode_context g"
  by (simp add: publish_def fold_notify_keeps_scores)

lemma fold_publish_keeps_scores:
  "\<forall>e\<in>set evs. \<not> is_RunEnded e \<Longrightarrow>
     score_manager (fold publish evs g) = score_manager g
     \<and> game_mode_context (fold publish evs g) = game_mode_context g"
  by (induction evs arbitrary: g) (simp_all add: publish_keeps_scores)

text \<open>
  C2. For every mode name and every leaderboard, \<open>top_scores 5\<close> yields at most five
  time values in descending order; publishing any sequence of events without a
  \<open>RunEnded\<close> between two calls leaves the result, and with it the game-over screen,
  the same.
\<close>

theorem top_scores_bounded_descending_stable:
  "length (top_scores 5 m sm) \<le> 5
 \<and> sorted_wrt (\<ge>) (top_scores 5 m sm)
 \<and> ((\<forall>e\<in>set evs. \<not> is_RunEnded e) \<longrightarrow>
      top_scores 5 m (score_manager (fold publish evs g)) = top_scores 5 m (score_manager g)
    \<and> render_game_over cfg (fold publish evs g) fs = render_game_over cfg g fs)"
  by (simp add: top_scores_descending fold_publish_keeps_scores render_game_over_def)
     (simp add: top_scores_def)

theorem top_scores_bounded_descending_stable_witness:
  "\<not> is_RunEnded ProjectileDodged \<and> \<not> is_RunEnded PlayerHit \<and> \<not> is_RunEnded HeartRestored
 \<and> top_scores 5 ''normal'' sample_board = [80, 60.5, 41.25, 41.25, 12.5]
 \<and> top_scores 5 ''normal''
      (score_manager (fold publish [ProjectileDodged, PlayerHit, HeartRestored]
         (sample_game\<lparr>score_manager := sample_board\<rparr>)))
      = [80, 60.5, 41.25, 41.25, 12.5]"
  using top_scores_bounded_descending_stable
    [of "''normal''" sample_board "[ProjectileDodged, PlayerHit, HeartRestored]"
        "sample_game\<lparr>score_manager := sample_board\<rparr>" sample_config None]
  by (simp add: top_scores_def sample_board_def sort_desc_def stored_scores_def)

subsection \<open>The main loop\<close>

lemma run_stopped: "\<not> loop_condition g \<Longrightarrow> run H ins g = Some (g, ins)"
  by (cases ins) simp_all

lemma run_SomeI:
  assumes "\<not> loop_condition (fold (tick H) ticks g)"
    and "\<forall>k<length ticks. loop_condition (fold (tick H) (take k ticks) g)"
  shows "run H (ticks @ rest) g = Some (fold (tick H) ticks g, rest)"
  using assms
proof (induction ticks arbitrary: g)
  case Nil
  then show ?case by (simp add: run_stopped)
next
  case (Cons d ds)
  from Cons.prems(2) have "loop_condition (fold (tick H) (take 0 (d # ds)) g)"
    by blast
  then have start: "loop_condition g" by simp
  have later: "\<forall>k<length ds. loop_condition (fold (tick H) (take k ds) (tick H d g))"
  proof (intro allI impI)
    fix k assume "k < length ds"
    then have "Suc k < length (d # ds)" by simp
    with Cons.prems(2) have "loop_condition (fold (tick H) (take (Suc k) (d # ds)) g)"
      by blast
    then show "loop_condition (fold (tick H) (take k ds) (tick H d g))" by simp
  qed
  from Cons.prems(1) have "\<not> loop_condition (fold (tick H) ds (tick H d g))" by simp
  from Cons.IH [OF this later] start show ?case by simp
qed

lemma run_SomeD:
  assumes "run H ins g = Some (g', rest)"
  shows "\<exists>ticks. ins = ticks @ rest \<and> g' = fold (tick H) ticks g
           \<and> \<not> loop_condition g'
           \<and> (\<forall>k<length ticks. loop_condition (fold (tick H) (take k ticks) g))"
  using assms
proof (induction ins arbitrary: g)
  case Nil
  then show ?case by (simp split: if_splits)
next
  case (Cons inp ins)
  show ?case
  proof (cases "loop_condition g")
    case False
    with Cons.prems have "g' = g" and "rest = inp # ins" by simp_all
    with False show ?thesis by simp
  next
    case True
    with Cons.prems have "run H ins (tick H inp g) = Some (g', rest)" by simp
    from Cons.IH [OF this] obtain ticks where
      t: "ins = ticks @ rest" "g' = fold (tick H) ticks (tick H inp g)"
         "\<not> loop_condition g'"
         "\<forall>k<length ticks. loop_condition (fold (tick H) (take k ticks) (tick H inp g))"
      by blast
    have "\<forall>k<length (inp # ticks). loop_condition (fold (tick H) (take k (inp # ticks)) g)"
    proof (intro allI impI)
      fix k assume k: "k < length (inp # ticks)"
      show "loop_condition (fold (tick H) (take k (inp # ticks)) g)"
      proof (cases k)
        case 0
        with True show ?thesis by simp
      next
        case (Suc j)
        with k t(4) show ?thesis by simp
      qed
    qed
    with t(1,2,3) have
      "inp # ins = (inp # ticks) @ rest \<and> g' = fold (tick H) (inp # ticks) g
         \<and> \<not> loop_condition g'
         \<and> (\<forall>k<length (inp # ticks). loop_condition (fold (tick H) (take k (inp # ticks)) g))"
      by simp
    then show ?thesis by blast
  qed
qed

lemma dispatch_events_stopped:
  "keeps_stopped H \<Longrightarrow> \<not> running g \<Longrightarrow> \<not> running (dispatch_events H es g)"
  by (induction es arbitrary: g) (simp_all add: keeps_stopped_def)

lemma dispatch_events_QUIT:
  "keeps_stopped H \<Longrightarrow> QUIT \<in> set es \<Longrightarrow> \<not> running (dispatch_events H es g)"
proof (induction es arbitrary: g)
  case Nil
  then show ?case by simp
next
  case (Cons e es)
  show ?case
  proof (cases "e = QUIT")
    case True
    with Cons.prems(1) show ?thesis by (simp add: dispatch_events_stopped)
  next
    case False
    with Cons show ?thesis by simp
  qed
qed

lemma tick_QUIT:
  "keeps_stopped H \<Longrightarrow> QUIT \<in> set (snd inp) \<Longrightarrow> \<not> running (tick H inp g)"
  using dispatch_events_QUIT [of H "snd inp" g]
  by (simp add: tick_def keeps_stopped_def)

text \<open>
  C4. The loop body runs only from a state in which both \<open>running\<close> and
  \<open>game_running\<close> hold: \<open>run\<close> returns a state and the unconsumed ticks exactly
  when the input splits into the ticks that were executed and the rest, every executed
  tick started with both flags set, and the state after the last executed tick has one
  of the flags cleared; nothing of the rest is dispatched. A tick whose events contain
  \<open>QUIT\<close> clears \<open>running\<close> and is the last one (the events after \<open>QUIT\<close> in the same
  batch, \<open>update\<close> and \<open>render\<close> of that tick are still run), provided the handlers do
  not set \<open>running\<close> again.
\<close>

theorem run_exits_exactly_when_flag_cleared:
  "(run H ins g = Some (g', rest) \<longleftrightarrow>
      (\<exists>ticks. ins = ticks @ rest \<and> g' = fold (tick H) ticks g
         \<and> \<not> (running g' \<and> game_running (game_state g'))
         \<and> (\<forall>k<length ticks.
               running (fold (tick H) (take k ticks) g)
             \<and> game_running (game_state (fold (tick H) (take k ticks) g)))))
 \<and> (keeps_stopped H \<and> running g \<and> game_running (game_state g) \<and> QUIT \<in> set (snd inp) \<longrightarrow>
      \<not> running (tick H inp g) \<and> run H (inp # later) g = Some (tick H inp g, later))"
proof (intro conjI impI iffI)
  assume "run H ins g = Some (g', rest)"
  from run_SomeD [OF this] show
    "\<exists>ticks. ins = ticks @ rest \<and> g' = fold (tick H) ticks g
         \<and> \<not> (running g' \<and> game_running (game_state g'))
         \<and> (\<forall>k<length ticks.
               running (fold (tick H) (take k ticks) g)
             \<and> game_running (game_state (fold (tick H) (take k ticks) g)))"
    by (simp add: loop_condition_def)
next
  assume "\<exists>ticks. ins = ticks @ rest \<and> g' = fold (tick H) ticks g
         \<and> \<not> (running g' \<and> game_running (game_state g'))
         \<and> (\<forall>k<length ticks.
               running (fold (tick H) (take k ticks) g)
             \<and> game_running (game_state (fold (tick H) (take k ticks) g)))"
  then obtain ticks where t: "ins = ticks @ rest" "g' = fold (tick H) ticks g"
      "\<not> loop_condition (fold (tick H) ticks g)"
      "\<forall>k<length ticks. loop_condition (fold (tick H) (take k ticks) g)"
    by (auto simp add: loop_condition_def)
  from run_SomeI [OF t(3,4)] t(1,2) show "run H ins g = Some (g', rest)" by simp
next
  assume a: "keeps_stopped H \<and> running g \<and> game_running (game_state g) \<and> QUIT \<in> set (snd inp)"
  then show "\<not> running (tick H inp g)" by (simp add: tick_QUIT)
  then have "\<not> loop_condition (tick H inp g)" by (simp add: loop_condition_def)
  from run_stopped [OF this] a show "run H (inp # later) g = Some (tick H inp g, later)"
    by (simp add: loop_condition_def)
qed


lemma sample_handlers_keep_stopped: "keeps_stopped sample_handlers"
  by (simp add: keeps_stopped_def sample_handlers_def)

theorem run_exits_exactly_when_flag_cleared_witness:
  "keeps_stopped sample_handlers
 \<and> running sample_game \<and> game_running (game_state sample_game)
 \<and> QUIT \<in> set (snd (17, [Event 3, QUIT, Event 5]))
 \<and> run sample_handlers [(17, [Event 3, QUIT, Event 5]), (16, [Event 9])] sample_game
     = Some (sample_game\<lparr>running := False\<rparr>, [(16, [Event 9])])
 \<and> run sample_handlers [(16, [Event 1]), (17, [Event 27]), (16, [])] sample_game
     = Some (sample_game\<lparr>game_state := \<lparr>mode = ''normal'', game_running = False\<rparr>\<rparr>, [(16, [])])
 \<and> (\<exists>ticks. [(16, [Event 1]), (17, [Event 27]), (16, [])] = ticks @ [(16, [])]
        \<and> sample_game\<lparr>game_state := \<lparr>mode = ''normal'', game_running = False\<rparr>\<rparr>
            = fold (tick sample_handlers) ticks sample_game)
 \<and> run sample_handlers [(16, [Event 1]), (17, [Event 2])] sample_game = None"
proof -
  have r: "run sample_handlers [(16, [Event 1]), (17, [Event 27]), (16, [])] sample_game
     = Some (sample_game\<lparr>game_state := \<lparr>mode = ''normal'', game_running = False\<rparr>\<rparr>, [(16, [])])"
    by (simp add: sample_handlers_def sample_game_def loop_condition_def tick_def)
  have n: "run sample_handlers [(16, [Event 1]), (17, [Event 2])] sample_game = None"
    by (simp add: sample_handlers_def sample_game_def loop_condition_def tick_def)
  have q: "tick sample_handlers (17, [Event 3, QUIT, Event 5]) sample_game
             = sample_game\<lparr>running := False\<rparr>"
    by (simp add: sample_handlers_def sample_game_def tick_def)
  have f: "running sample_game \<and> game_running (game_state sample_game)"
    by (simp add: sample_game_def)
  from run_exits_exactly_when_flag_cleared
    [of sample_handlers "[(16, [Event 1]), (17, [Event 27]), (16, [])]" sample_game
        "sample_game\<lparr>game_state := \<lparr>mode = ''normal'', game_running = False\<rparr>\<rparr>"
        "[(16, [])]" "(17, [Event 3, QUIT, Event 5])" "[(16, [Event 9])]"]
    r n q f sample_handlers_keep_stopped
  show ?thesis by auto
qed

subsection \<open>Switching the mode\<close>



subsection \<open>Unknown mode names\<close>

text \<open>
  C3 (as the code has it). For a mode name other than \<open>normal\<close> and \<open>nightmare\<close>,
  \<open>set_game_mode\<close> rejects the request by raising \<open>ValueError\<close> with the message
  \<open>Unknown game mode: \<close> followed by the name: the call does not return normally.
  The game object is left exactly as it was, so the previously active strategy stays
  active and nothing is printed.
\<close>

theorem unknown_mode_raises_ValueError:
  assumes "m \<noteq> ''normal''" and "m \<noteq> ''nightmare''"
  shows "set_game_mode cls m g = (Inl (ValueError (''Unknown game mode: '' @ m)), g)
       \<and> fst (set_game_mode cls m g) = Inl (ValueError (''Unknown game mode: '' @ m))
       \<and> fst (set_game_mode cls m g) \<noteq> Inr ()
       \<and> snd (set_game_mode cls m g) = g
       \<and> strategy (game_mode_context (snd (set_game_mode cls m g)))
           = strategy (game_mode_context g)
       \<and> game_mode_context (snd (set_game_mode cls m g)) = game_mode_context g
       \<and> get_mode_name (game_mode_context (snd (set_game_mode cls m g)))
           = get_mode_name (game_mode_context g)
       \<and> stdout (snd (set_game_mode cls m g)) = stdout g"
  using assms by (simp add: set_game_mode_def)

theorem unknown_mode_raises_ValueError_witness:
  "''easy'' \<noteq> ''normal'' \<and> ''easy'' \<noteq> ''nightmare''
 \<and> fst (set_game_mode sample_classes ''easy'' nightmare_run)
      = Inl (ValueError ''Unknown game mode: easy'')
 \<and> snd (set_game_mode sample_classes ''easy'' nightmare_run) = nightmare_run
 \<and> strategy (game_mode_context (snd (set_game_mode sample_classes ''easy'' nightmare_run)))
      = sample_nightmare
 \<and> get_mode_name (game_mode_context (snd (set_game_mode sample_classes ''easy'' nightmare_run)))
      = ''nightmare''
 \<and> stdout (snd (set_game_mode sample_classes ''easy'' nightmare_run)) = []"
  using unknown_mode_raises_ValueError [of "''easy''" sample_classes nightmare_run]
  by (simp add: nightmare_run_def sample_defs method_defs Let_def)

text \<open>
  C3, counterexample. The claim as written fails: the call does not return with a warning, it raises, and
  no warning is printed.
\<close>

theorem unknown_mode_counterexample:
  "fst (set_game_mode sample_classes ''hard'' sample_game) \<noteq> Inr ()
 \<and> fst (set_game_mode sample_classes ''hard'' sample_game)
      = Inl (ValueError ''Unknown game mode: hard'')
 \<and> stdout (snd (set_game_mode sample_classes ''hard'' sample_game)) = stdout sample_game"
  by (simp add: set_game_mode_def)

end
